theory Spec2Isabelle
  imports Complex_Main "HOL-Library.Sublist" "HOL-Library.AList"
begin

section \<open>Python values and library functions used by app.py\<close>

text \<open>
  The processing part of \<^verbatim>\<open>app.py\<close> (lines 118 to 233) reads a pandas data frame,
  cleans it and builds three output tables row by row. The model keeps the shape of that
  code. Conventions:
  \<^item> a Python string is a \<^typ>\<open>string\<close>; its characters are code points below 256;
  \<^item> a Python number is a \<^typ>\<open>rat\<close>: arithmetic is exact, the rounding error of
    binary floating point, infinities and the difference between \<^verbatim>\<open>int\<close> and
    \<^verbatim>\<open>float\<close> are not modelled;
  \<^item> the two library functions whose full behaviour is outside the repository, the number
    parser behind \<^verbatim>\<open>pd.to_numeric\<close> and the text form of a number used by
    \<^verbatim>\<open>str\<close> and by f-strings, are parameters (record \<open>pylib\<close>);
  \<^item> an exception is a value of type \<open>pyexn\<close>, and a function that may raise returns
    \<open>pyexn + 'a\<close>.
\<close>

datatype cell = CStr string | CNum rat | CNaN

datatype pyexn = KeyError string | TypeError | ValueError

datatype failure = MissingColumns "string list" | Unexpected pyexn

record pylib =
  parse_number :: "string \<Rightarrow> rat option"
  number_text :: "rat \<Rightarrow> string"

text \<open>\<^verbatim>\<open>str(x)\<close> and \<^verbatim>\<open>f"{x}"\<close> of a cell value; a missing value prints as \<^verbatim>\<open>nan\<close>.\<close>

definition py_str :: "pylib \<Rightarrow> cell \<Rightarrow> string" where
  "py_str lib v = (case v of CStr s \<Rightarrow> s | CNum x \<Rightarrow> number_text lib x | CNaN \<Rightarrow> ''nan'')"

text \<open>\<^verbatim>\<open>str.isspace\<close> on the code points below 256.\<close>

definition is_space :: "char \<Rightarrow> bool" where
  "is_space c = (let n = (of_char c :: nat) in
     (9 \<le> n \<and> n \<le> 13) \<or> (28 \<le> n \<and> n \<le> 32) \<or> n = 133 \<or> n = 160)"

text \<open>\<^verbatim>\<open>s.strip()\<close>\<close>

definition py_strip :: "string \<Rightarrow> string" where
  "py_strip s = rev (dropWhile is_space (rev (dropWhile is_space s)))"

text \<open>\<^verbatim>\<open>s.split(sep)\<close> for a separator of one character.\<close>

fun py_split :: "char \<Rightarrow> string \<Rightarrow> string list" where
  "py_split sep [] = [[]]"
| "py_split sep (c # cs) =
     (if c = sep then [] # py_split sep cs
      else (case py_split sep cs of [] \<Rightarrow> [[c]] | w # ws \<Rightarrow> (c # w) # ws))"

text \<open>\<^verbatim>\<open>sep.join(parts)\<close>\<close>

fun py_join :: "string \<Rightarrow> string list \<Rightarrow> string" where
  "py_join sep [] = []"
| "py_join sep [x] = x"
| "py_join sep (x # y # ys) = x @ sep @ py_join sep (y # ys)"

text \<open>\<^verbatim>\<open>s.replace(old, new)\<close> where \<^verbatim>\<open>old\<close> is one character.\<close>

definition py_replace :: "char \<Rightarrow> string \<Rightarrow> string \<Rightarrow> string" where
  "py_replace old new s = concat (map (\<lambda>c. if c = old then new else [c]) s)"

text \<open>\<^verbatim>\<open>s.lower()\<close>: on code points below 256 it works character by character.\<close>

definition lower_char :: "char \<Rightarrow> char" where
  "lower_char c = (let n = (of_char c :: nat) in
     if (65 \<le> n \<and> n \<le> 90) \<or> (192 \<le> n \<and> n \<le> 222 \<and> n \<noteq> 215)
     then char_of (n + 32) else c)"

definition py_lower :: "string \<Rightarrow> string" where
  "py_lower s = map lower_char s"

text \<open>
  \<^verbatim>\<open>s[i:]\<close>: a negative start counts from the end, and a start outside the string is
  clipped to it.
\<close>

definition py_slice_from :: "int \<Rightarrow> string \<Rightarrow> string" where
  "py_slice_from i s =
     (let n = int (length s);
          start = (if i < 0 then max (n + i) 0 else min i n)
      in drop (nat start) s)"

text \<open>\<^verbatim>\<open>xs[0]\<close> raises \<^verbatim>\<open>IndexError\<close> on an empty list; \<^verbatim>\<open>split\<close> never returns one.\<close>

definition first_segment :: "string list \<Rightarrow> string" where
  "first_segment xs = (case xs of [] \<Rightarrow> [] | x # _ \<Rightarrow> x)"

text \<open>\<^verbatim>\<open>round(x)\<close> with one argument: the nearest integer, a tie goes to the even one.\<close>

definition py_round :: "rat \<Rightarrow> int" where
  "py_round x = (let f = \<lfloor>x\<rfloor>; d = x - of_int f in
     if d < 1 / 2 then f else if 1 / 2 < d then f + 1 else if even f then f else f + 1)"

text \<open>\<^verbatim>\<open>v * 453.592\<close> and \<^verbatim>\<open>round(v)\<close> on a cell value.\<close>

definition mul_float :: "cell \<Rightarrow> rat \<Rightarrow> pyexn + cell" where
  "mul_float v r = (case v of CNum x \<Rightarrow> Inr (CNum (x * r)) | CNaN \<Rightarrow> Inr CNaN
                    | CStr s \<Rightarrow> Inl TypeError)"

definition round_cell :: "cell \<Rightarrow> pyexn + cell" where
  "round_cell v = (case v of CNum x \<Rightarrow> Inr (CNum (of_int (py_round x)))
                   | CNaN \<Rightarrow> Inl ValueError | CStr s \<Rightarrow> Inl TypeError)"

text \<open>Sequencing of steps that may raise: the first exception ends the computation.\<close>

definition and_then :: "'e + 'a \<Rightarrow> ('a \<Rightarrow> 'e + 'b) \<Rightarrow> 'e + 'b" where
  "and_then m f = (case m of Inl e \<Rightarrow> Inl e | Inr v \<Rightarrow> f v)"

section \<open>Data frames\<close>

text \<open>
  A data frame as \<^verbatim>\<open>pd.read_csv\<close> returns it: a range index of \<open>index_size\<close> labels
  and the columns in order, each with its name and its cells. \<open>frame_ok\<close> says what
  pandas guarantees of such a frame (every column has one cell per label) and what the
  model needs of the header: names still distinct once stripped, since a frame with two
  columns of one name is indexed differently by pandas.
\<close>

record dataframe =
  index_size :: nat
  series :: "(string \<times> cell list) list"

type_synonym row = "(string \<times> cell) list"

definition columns :: "dataframe \<Rightarrow> string list" where
  "columns df = map fst (series df)"

definition frame_ok :: "dataframe \<Rightarrow> bool" where
  "frame_ok df = (distinct (map py_strip (columns df)) \<and>
                  list_all (\<lambda>p. length (snd p) = index_size df) (series df))"

text \<open>\<^verbatim>\<open>antique_import.columns = antique_import.columns.str.strip()\<close>\<close>

definition strip_headers :: "dataframe \<Rightarrow> dataframe" where
  "strip_headers df = df\<lparr>series := map (\<lambda>p. (py_strip (fst p), snd p)) (series df)\<rparr>"

definition numeric_cols_to_check :: "string list" where
  "numeric_cols_to_check = [''Retail Price'', ''End Weight (lbs)'', ''Quantity'', ''Burn Time'',
     ''End Weight'', ''Height'', ''Width'']"

definition required_cols :: "string list" where
  "required_cols = [''SKU'', ''Fragrance - Vessel Description'', ''Retail Price'',
     ''End Weight (lbs)'', ''Quantity'']"

definition numeric_cols :: "dataframe \<Rightarrow> string list" where
  "numeric_cols df = filter (\<lambda>col. col \<in> set (columns df)) numeric_cols_to_check"

definition missing_cols :: "dataframe \<Rightarrow> string list" where
  "missing_cols df = filter (\<lambda>col. col \<notin> set (columns df)) required_cols"

text \<open>The text shown by \<^verbatim>\<open>st.error\<close> before \<^verbatim>\<open>st.stop()\<close>.\<close>

definition missing_message :: "string list \<Rightarrow> string" where
  "missing_message ms =
     ''**Error:** Your file is missing the following required columns: `'' @
     py_join '', '' ms @ ''`''"

text \<open>\<^verbatim>\<open>pd.to_numeric(col, errors='coerce')\<close> and \<^verbatim>\<open>.fillna(0)\<close>, cell by cell.\<close>

definition to_numeric :: "pylib \<Rightarrow> cell \<Rightarrow> cell" where
  "to_numeric lib v = (case v of CNum x \<Rightarrow> CNum x | CNaN \<Rightarrow> CNaN
     | CStr s \<Rightarrow> (case parse_number lib s of Some x \<Rightarrow> CNum x | None \<Rightarrow> CNaN))"

definition fillna :: "rat \<Rightarrow> cell \<Rightarrow> cell" where
  "fillna d v = (case v of CNaN \<Rightarrow> CNum d | _ \<Rightarrow> v)"

text \<open>
  \<^verbatim>\<open>antique_import[col] = pd.to_numeric(antique_import[col], errors='coerce').fillna(0)\<close>;
  \<open>col\<close> comes from \<open>numeric_cols\<close>, so the column exists and is replaced in place.
\<close>

definition coerce_series :: "pylib \<Rightarrow> cell list \<Rightarrow> cell list" where
  "coerce_series lib cells = map (fillna 0) (map (to_numeric lib) cells)"

definition coerce_col :: "pylib \<Rightarrow> string \<Rightarrow> dataframe \<Rightarrow> dataframe" where
  "coerce_col lib col df =
     df\<lparr>series := AList.map_entry col (coerce_series lib) (series df)\<rparr>"

text \<open>
  \<^verbatim>\<open>col * 16\<close> on one cell: a number is multiplied, a missing value stays missing, and
  a string is repeated.
\<close>

definition times16 :: "cell \<Rightarrow> cell" where
  "times16 v = (case v of CNum x \<Rightarrow> CNum (x * 16) | CNaN \<Rightarrow> CNaN
                | CStr s \<Rightarrow> CStr (concat (replicate 16 s)))"

text \<open>Lines 149 and 150: the column is appended when it is not there yet.\<close>

definition add_end_weight :: "dataframe \<Rightarrow> dataframe" where
  "add_end_weight df =
     (case map_of (series df) ''End Weight (lbs)'' of
        Some lbs \<Rightarrow>
          if ''End Weight'' \<notin> set (columns df)
          then df\<lparr>series := series df @ [(''End Weight'', map times16 lbs)]\<rparr>
          else df
      | None \<Rightarrow> df)"

text \<open>
  Lines 125 to 150. \<open>numeric_cols\<close> is computed from the stripped header before the check of
  the required columns, as in the source.
\<close>

definition normalize :: "pylib \<Rightarrow> dataframe \<Rightarrow> failure + dataframe" where
  "normalize lib df0 =
     (let df = strip_headers df0;
          ncols = numeric_cols df;
          missing = missing_cols df
      in if missing \<noteq> [] then Inl (MissingColumns missing)
         else Inr (add_end_weight (fold (coerce_col lib) ncols df)))"

text \<open>\<^verbatim>\<open>antique_import.iterrows()\<close>: the label and the row, a value for each column name.\<close>

definition row_at :: "dataframe \<Rightarrow> nat \<Rightarrow> row" where
  "row_at df i = map (\<lambda>p. (fst p, snd p ! i)) (series df)"

definition iterrows :: "dataframe \<Rightarrow> (nat \<times> row) list" where
  "iterrows df = map (\<lambda>i. (i, row_at df i)) [0..<index_size df]"

text \<open>\<^verbatim>\<open>row[k]\<close> raises \<^verbatim>\<open>KeyError\<close> for a missing name; \<^verbatim>\<open>row.get(k, d)\<close> returns \<open>d\<close>.\<close>

definition row_get :: "row \<Rightarrow> string \<Rightarrow> pyexn + cell" where
  "row_get r k = (case map_of r k of None \<Rightarrow> Inl (KeyError k) | Some v \<Rightarrow> Inr v)"

definition row_get_default :: "row \<Rightarrow> string \<Rightarrow> cell \<Rightarrow> cell" where
  "row_get_default r k d = (case map_of r k of None \<Rightarrow> d | Some v \<Rightarrow> v)"

section \<open>The data processing loop\<close>

type_synonym out_row = "(string \<times> cell) list"

type_synonym tables = "(nat \<times> out_row) list \<times> (nat \<times> out_row) list \<times> (nat \<times> out_row) list"

text \<open>Line 168: the display name for NetSuite.\<close>

definition netsuite_display_name :: "string \<Rightarrow> string" where
  "netsuite_display_name original_description =
     py_join '' - '' (map py_strip (py_split CHR ''|'' original_description))"

text \<open>Lines 215 to 217: the fragrance and its tag.\<close>

definition fragrance :: "string \<Rightarrow> string" where
  "fragrance original_description =
     (let parseable_name_for_tags = py_replace CHR ''|'' ''-'' original_description
      in py_strip (first_segment (py_split CHR ''-'' parseable_name_for_tags)))"

definition smells_like :: "string \<Rightarrow> string" where
  "smells_like original_description =
     py_lower (py_replace CHR '' '' ''-'' (fragrance original_description))"

text \<open>Line 218: the tags, with \<^verbatim>\<open>sku_str[-6:]\<close>.\<close>

definition tags :: "string \<Rightarrow> string \<Rightarrow> string" where
  "tags sku_str original_description =
     ''_tab2_antique-restock-101,antique'' @ py_slice_from (- 6) sku_str @ '',_tab1_'' @
     smells_like original_description @ ''-smells-like, '' @ fragrance original_description"

text \<open>Lines 208 to 212: the three lines of the body, with the indentation of the source.\<close>

definition p_open :: string where
  "p_open = ''<p data-mce-fragment='' @ [CHR 0x22] @ ''1'' @ [CHR 0x22] @ ''>''"

definition body_line :: "string \<Rightarrow> string" where
  "body_line content = [CHR 0x0A] @ replicate 16 CHR '' '' @ p_open @ content @ ''</p>''"

definition body_html :: "string \<Rightarrow> string \<Rightarrow> string \<Rightarrow> string \<Rightarrow> string" where
  "body_html burn oz height width =
     body_line (''Approximate Burn Time: '' @ burn @ '' hours'') @
     body_line (''Weight: '' @ oz @ '' oz'') @
     body_line (''Dimensions: '' @ height @ [CHR 0x22] @ '' Height x '' @ width @
                [CHR 0x22] @ '' Width'') @
     [CHR 0x0A] @ replicate 12 CHR '' ''"

text \<open>Lines 171 to 189.\<close>

definition netsuite_import_row :: "cell \<Rightarrow> string \<Rightarrow> cell \<Rightarrow> cell \<Rightarrow> out_row" where
  "netsuite_import_row sku display_name price lbs =
     [(''externalid'', sku),
      (''itemid'', sku),
      (''Display Name'', CStr display_name),
      (''unitstype'', CStr ''Quantity''),
      (''location'', CStr ''ACC 1611''),
      (''track landed cost'', CStr ''FALSE''),
      (''costingmethod'', CStr ''AVERAGE''),
      (''costcategory'', CStr ''Default''),
      (''atpmethod'', CStr ''Discrete ATP''),
      (''autopreferredstocklevel'', CStr ''TRUE''),
      (''isspecialorderitem'', CStr ''FALSE''),
      (''usebins'', CStr ''FALSE''),
      (''cogsaccount'', CNum 318),
      (''incomeaccount'', CNum 429),
      (''assetaccount'', CNum 227),
      (''taxSchedule'', CStr ''Non-taxable''),
      (''isinactive'', CStr ''FALSE''),
      (''Price'', price),
      (''Weight'', lbs)]"

text \<open>Lines 192 to 202.\<close>

definition inventory_adjustment_row :: "pylib \<Rightarrow> cell \<Rightarrow> string \<Rightarrow> cell \<Rightarrow> out_row" where
  "inventory_adjustment_row lib sku display_name qty =
     (let sku_str = py_str lib sku in
      [(''External ID'', CStr (''Antique Restock '' @ py_slice_from (- 6) sku_str)),
       (''Full name'', CStr (py_str lib sku @ '' '' @ display_name)),
       (''Account'', CNum 325),
       (''Class'', CStr ''Operations : Production''),
       (''Department'', CStr ''Retail''),
       (''memo'', CStr (''Antique Restock '' @ py_slice_from (- 6) sku_str)),
       (''line qty adj'', qty),
       (''Line adj loc'', CStr ''ACC 1611''),
       (''Line memo'', CStr (''Antique Restock '' @ py_slice_from (- 6) sku_str)),
       (''itemId'', sku)])"

text \<open>Lines 205 to 231.\<close>

definition shopify_import_row ::
  "pylib \<Rightarrow> cell \<Rightarrow> string \<Rightarrow> cell \<Rightarrow> cell \<Rightarrow> cell \<Rightarrow> cell \<Rightarrow> cell \<Rightarrow> cell \<Rightarrow> out_row" where
  "shopify_import_row lib sku original_description burn oz height width grams price =
     (let sku_str = py_str lib sku in
      [(''Handle'', CStr (py_replace CHR '' '' [] sku_str)),
       (''Title'', CStr original_description),
       (''Body (HTML)'', CStr (body_html (py_str lib burn) (py_str lib oz)
                                 (py_str lib height) (py_str lib width))),
       (''Tags'', CStr (tags sku_str original_description)),
       (''Published'', CStr ''FALSE''),
       (''Variant SKU'', sku),
       (''Variant Grams'', grams),
       (''Variant Inventory Tracker'', CStr ''shopify''),
       (''Variant Inventory Policy'', CStr ''deny''),
       (''Variant Fulfillment Service'', CStr ''manual''),
       (''Variant Price'', price),
       (''Variant Requires Shipping'', CStr ''TRUE''),
       (''Variant Taxable'', CStr ''TRUE''),
       (''Gift Card'', CStr ''FALSE''),
       (''Variant Weight Unit'', CStr ''lb''),
       (''Status'', CStr ''active'')])"

text \<open>
  One pass of the loop body, lines 164 to 231. The reads of the row are in the order of the
  source, so the first name that is missing is the one the \<^verbatim>\<open>KeyError\<close> carries. The
  result is the row of the NetSuite import, of the Shopify import and of the inventory
  adjustment.
\<close>

definition process_row :: "pylib \<Rightarrow> row \<Rightarrow> pyexn + (out_row \<times> out_row \<times> out_row)" where
  "process_row lib r =
     and_then (row_get r ''Fragrance - Vessel Description'') (\<lambda>description.
     and_then (row_get r ''SKU'') (\<lambda>sku.
     and_then (row_get r ''Retail Price'') (\<lambda>price.
     and_then (row_get r ''End Weight (lbs)'') (\<lambda>lbs.
     and_then (row_get r ''Quantity'') (\<lambda>qty.
     and_then (row_get r ''Burn Time'') (\<lambda>burn.
     and_then (row_get r ''End Weight'') (\<lambda>oz.
     and_then (and_then (mul_float lbs (453592 / 1000)) round_cell) (\<lambda>grams.
       Inr (netsuite_import_row sku (netsuite_display_name (py_str lib description)) price lbs,
            shopify_import_row lib sku (py_str lib description) burn oz
              (row_get_default r ''Height'' (CStr ''N/A''))
              (row_get_default r ''Width'' (CStr ''N/A'')) grams price,
            inventory_adjustment_row lib sku (netsuite_display_name (py_str lib description))
              qty)))))))))"

text \<open>
  The loop of line 163. Each pass adds one row, under the label of the input row, to each
  table; an exception leaves the loop.
\<close>

fun process_rows :: "pylib \<Rightarrow> (nat \<times> row) list \<Rightarrow> tables \<Rightarrow> pyexn + tables" where
  "process_rows lib [] t = Inr t"
| "process_rows lib ((index, r) # rest) (netsuite_import, shopify_import, inventory) =
     (case process_row lib r of
        Inl e \<Rightarrow> Inl e
      | Inr (a, b, c) \<Rightarrow>
          process_rows lib rest
            (netsuite_import @ [(index, a)], shopify_import @ [(index, b)],
             inventory @ [(index, c)]))"

text \<open>
  Lines 118 to 259 without the user interface: a missing required column stops the run
  before any table exists, an exception of the loop is caught at line 258 and only reported,
  and otherwise the three tables are shown and offered for download.
\<close>

definition run :: "pylib \<Rightarrow> dataframe \<Rightarrow> failure + tables" where
  "run lib uploaded =
     (case normalize lib uploaded of
        Inl f \<Rightarrow> Inl f
      | Inr antique_import \<Rightarrow>
          (case process_rows lib (iterrows antique_import) ([], [], []) of
             Inl e \<Rightarrow> Inl (Unexpected e)
           | Inr t \<Rightarrow> Inr t))"

text \<open>The number of rows of the three tables the run hands to the user.\<close>

definition rows_produced :: "failure + tables \<Rightarrow> nat \<times> nat \<times> nat" where
  "rows_produced res =
     (case res of Inl f \<Rightarrow> (0, 0, 0)
      | Inr (netsuite_import, shopify_import, inventory) \<Rightarrow>
          (length netsuite_import, length shopify_import, length inventory))"

section \<open>Splitting at a separator of several characters\<close>

text \<open>
  The round trip of the display name splits it again at \<^verbatim>\<open>" - "\<close>. This is
  \<^verbatim>\<open>s.split(sep)\<close> for a separator of any length: the string is scanned from the left, and
  an occurrence of the separator ends the current part and is skipped as a whole.
\<close>

function split_scan :: "string \<Rightarrow> string \<Rightarrow> string list" where
  "split_scan sep [] = [[]]"
| "split_scan sep (c # cs) =
     (if sep \<noteq> [] \<and> take (length sep) (c # cs) = sep
      then [] # split_scan sep (drop (length sep) (c # cs))
      else (case split_scan sep cs of [] \<Rightarrow> [[c]] | w # ws \<Rightarrow> (c # w) # ws))"
  by pat_completeness auto
termination
  by (relation "measure (\<lambda>p. length (snd p))") auto

section \<open>Sample inputs\<close>

text \<open>
  An instance of the library parameters for the worked examples: the parser knows the
  texts of the table and rejects every other text, and the text of a number is looked up
  in a table as well.
\<close>

definition sample_lib :: pylib where
  "sample_lib = \<lparr>
     parse_number = map_of [(''24.99'', 2499 / 100), (''-5'', - 5), (''7'', 7)],
     number_text = (\<lambda>x. case map_of [(40 :: rat, ''40''), (24, ''24.0''), (4, ''4''), (3, ''3'')] x of
                          Some t \<Rightarrow> t | None \<Rightarrow> ''0.0'')\<rparr>"

text \<open>
  The example row of the specification, and a second row with a description without
  \<^verbatim>\<open>|\<close>, a price that is no number, a missing quantity and a weight whose gram value
  falls half way between two integers. Two header names carry white space.
\<close>

definition example_frame :: dataframe where
  "example_frame = \<lparr>index_size = 2, series =
     [('' SKU'', [CStr ''ABC123456'', CStr ''XY 12'']),
      (''Fragrance - Vessel Description'', [CStr ''Vanilla Bean | Mason Jar'', CStr '' Lavender '']),
      (''Retail Price '', [CStr ''24.99'', CStr ''N/A'']),
      (''End Weight (lbs)'', [CNum (3 / 2), CNum (125 / 2)]),
      (''Quantity'', [CNum 3, CNaN]),
      (''Burn Time'', [CNum 40, CNum 40]),
      (''Height'', [CNum 4, CNum 4]),
      (''Width'', [CNum 3, CNum 3])]\<rparr>"

definition example_normalized :: dataframe where
  "example_normalized = \<lparr>index_size = 2, series =
     [(''SKU'', [CStr ''ABC123456'', CStr ''XY 12'']),
      (''Fragrance - Vessel Description'', [CStr ''Vanilla Bean | Mason Jar'', CStr '' Lavender '']),
      (''Retail Price'', [CNum (2499 / 100), CNum 0]),
      (''End Weight (lbs)'', [CNum (3 / 2), CNum (125 / 2)]),
      (''Quantity'', [CNum 3, CNum 0]),
      (''Burn Time'', [CNum 40, CNum 40]),
      (''Height'', [CNum 4, CNum 4]),
      (''Width'', [CNum 3, CNum 3]),
      (''End Weight'', [CNum 24, CNum 1000])]\<rparr>"

text \<open>A frame with the five required columns only, and one with a negative price.\<close>

definition required_only_frame :: dataframe where
  "required_only_frame = \<lparr>index_size = 1, series =
     [(''SKU'', [CStr ''ABC123456'']),
      (''Fragrance - Vessel Description'', [CStr ''Vanilla Bean | Mason Jar'']),
      (''Retail Price'', [CNum (2499 / 100)]),
      (''End Weight (lbs)'', [CNum (3 / 2)]),
      (''Quantity'', [CNum 3])]\<rparr>"

definition negative_price_frame :: dataframe where
  "negative_price_frame = \<lparr>index_size = 1, series =
     [(''SKU'', [CStr ''ABC123456'']),
      (''Fragrance - Vessel Description'', [CStr ''Vanilla Bean | Mason Jar'']),
      (''Retail Price'', [CNum (- 5)]),
      (''End Weight (lbs)'', [CNum (3 / 2)]),
      (''Quantity'', [CNum 3]),
      (''Burn Time'', [CNum 40])]\<rparr>"

text \<open>A frame without the columns \<^verbatim>\<open>Retail Price\<close> and \<^verbatim>\<open>Quantity\<close>.\<close>

definition two_missing_frame :: dataframe where
  "two_missing_frame = \<lparr>index_size = 1, series =
     [(''SKU'', [CStr ''ABC123456'']),
      (''Fragrance - Vessel Description'', [CStr ''Vanilla Bean | Mason Jar'']),
      (''End Weight (lbs)'', [CNum (3 / 2)])]\<rparr>"

section \<open>Facts about the string functions\<close>

lemma py_split_not_Nil: "py_split sep s \<noteq> []"
  by (induction s) (auto split: list.splits)

lemma py_split_no_sep: "p \<in> set (py_split sep s) \<Longrightarrow> sep \<notin> set p"
  by (induction s arbitrary: p) (auto split: list.splits if_splits)

lemma py_join_py_split: "py_join [sep] (py_split sep s) = s"
proof (induction s)
  case Nil
  show ?case by simp
next
  case (Cons c cs)
  obtain w ws where w: "py_split sep cs = w # ws"
    using py_split_not_Nil [of sep cs] by (cases "py_split sep cs") auto
  with Cons show ?case by (cases ws) auto
qed

lemma py_split_without_sep: "sep \<notin> set s \<Longrightarrow> py_split sep s = [s]"
  by (induction s) auto

lemma first_segment_py_split:
  "first_segment (py_split sep s) = takeWhile (\<lambda>c. c \<noteq> sep) s"
  by (induction s) (auto simp: first_segment_def split: list.splits)

lemma py_replace_char: "py_replace old [new] s = map (\<lambda>c. if c = old then new else c) s"
  by (induction s) (auto simp: py_replace_def)

lemma py_replace_delete: "py_replace old [] s = filter (\<lambda>c. c \<noteq> old) s"
  by (induction s) (auto simp: py_replace_def)

lemma takeWhile_map_replace:
  "takeWhile (\<lambda>c. c \<noteq> b) (map (\<lambda>c. if c = a then b else c) s) =
   takeWhile (\<lambda>c. c \<noteq> a \<and> c \<noteq> b) s"
  by (induction s) auto

lemma fragrance_takeWhile:
  "fragrance d = py_strip (takeWhile (\<lambda>c. c \<noteq> CHR ''|'' \<and> c \<noteq> CHR ''-'') d)"
  by (simp add: fragrance_def first_segment_py_split py_replace_char takeWhile_map_replace)

lemma char_of_shifted_not_space:
  fixes n :: nat
  assumes "65 \<le> n" "n \<le> 222"
  shows "(char_of (n + 32) :: char) \<noteq> CHR '' ''"
proof
  assume "(char_of (n + 32) :: char) = CHR '' ''"
  then have "(of_char (char_of (n + 32) :: char) :: nat) = of_char CHR '' ''"
    by simp
  then have "(n + 32) mod 256 = 32"
    by simp
  with assms show False
    by (simp add: mod_if split: if_splits)
qed

lemma lower_char_space: "lower_char c = CHR '' '' \<longleftrightarrow> c = CHR '' ''"
proof
  assume "lower_char c = CHR '' ''"
  then show "c = CHR '' ''"
    using char_of_shifted_not_space [of "of_char c"]
    by (auto simp: lower_char_def Let_def split: if_splits)
next
  assume "c = CHR '' ''"
  then show "lower_char c = CHR '' ''"
    by (simp add: lower_char_def)
qed

lemma lower_char_hyphen: "lower_char CHR ''-'' = CHR ''-''"
  by code_simp

lemma py_lower_replace_space:
  "py_lower (py_replace CHR '' '' ''-'' s) = py_replace CHR '' '' ''-'' (py_lower s)"
  by (induction s)
     (auto simp: py_lower_def py_replace_def lower_char_space lower_char_hyphen)

lemma length_py_slice_from_neg6: "length (py_slice_from (- 6) s) = min 6 (length s)"
  by (auto simp: py_slice_from_def Let_def)

lemma suffix_py_slice_from: "suffix (py_slice_from i s) s"
  by (simp add: py_slice_from_def Let_def suffix_drop)

lemma py_slice_from_short: "length s \<le> 6 \<Longrightarrow> py_slice_from (- 6) s = s"
  by (auto simp: py_slice_from_def Let_def)


section \<open>Splitting the display name again\<close>

lemma split_scan_no_match:
  "take (length sep) (c # cs) \<noteq> sep \<Longrightarrow>
   split_scan sep (c # cs) = (case split_scan sep cs of [] \<Rightarrow> [[c]] | w # ws \<Rightarrow> (c # w) # ws)"
  by simp

lemma split_scan_absent: "\<not> sublist sep s \<Longrightarrow> split_scan sep s = [s]"
proof (induction s)
  case Nil
  show ?case by simp
next
  case (Cons c cs)
  have "\<not> sublist sep cs"
    using Cons.prems by (auto simp: sublist_Cons_right)
  then have ih: "split_scan sep cs = [cs]"
    by (rule Cons.IH)
  have "take (length sep) (c # cs) \<noteq> sep"
  proof
    assume "take (length sep) (c # cs) = sep"
    then have "prefix sep (c # cs)"
      by (metis take_is_prefix)
    then show False
      using Cons.prems by (auto simp: sublist_Cons_right)
  qed
  then show ?case
    using ih by simp
qed

lemma split_scan_dash_first:
  assumes "\<not> sublist '' - '' p" "\<not> suffix '' -'' p"
  shows "split_scan '' - '' (p @ '' - '' @ r) = p # split_scan '' - '' r"
  using assms
proof (induction p)
  case Nil
  show ?case by simp
next
  case (Cons c p)
  have a: "\<not> sublist '' - '' p"
    using Cons.prems(1) by (auto simp: sublist_Cons_right)
  have b: "\<not> suffix '' -'' p"
    using Cons.prems(2) by (auto simp: suffix_Cons)
  have ih: "split_scan '' - '' (p @ '' - '' @ r) = p # split_scan '' - '' r"
    using a b by (rule Cons.IH)
  have ne: "take (length '' - '') (c # (p @ '' - '' @ r)) \<noteq> '' - ''"
  proof (cases p)
    case Nil
    then show ?thesis by simp
  next
    case (Cons d q)
    note p = Cons
    show ?thesis
    proof (cases q)
      case Nil
      with p Cons.prems(2) show ?thesis by (auto simp: suffix_def)
    next
      case (Cons e q')
      with p Cons.prems(1) show ?thesis
        by (auto simp: sublist_Cons_right prefix_def)
    qed
  qed
  have "split_scan '' - '' (c # (p @ '' - '' @ r)) = (c # p) # split_scan '' - '' r"
    by (simp only: split_scan_no_match [OF ne] ih list.case)
  then show ?case
    by (simp only: append_Cons)
qed

lemma split_scan_py_join:
  assumes "ps \<noteq> []" "\<forall>p \<in> set ps. \<not> sublist '' - '' p"
    "\<forall>p \<in> set (butlast ps). \<not> suffix '' -'' p"
  shows "split_scan '' - '' (py_join '' - '' ps) = ps"
  using assms
proof (induction ps)
  case Nil
  then show ?case by simp
next
  case (Cons x ps)
  show ?case
  proof (cases ps)
    case Nil
    with Cons.prems show ?thesis by (simp add: split_scan_absent)
  next
    case (Cons y ys)
    have ih: "split_scan '' - '' (py_join '' - '' ps) = ps"
      using Cons.prems Cons by (intro Cons.IH) auto
    have x: "\<not> sublist '' - '' x" "\<not> suffix '' -'' x"
      using Cons.prems Cons by simp_all
    have "py_join '' - '' (x # ps) = x @ '' - '' @ py_join '' - '' ps"
      unfolding Cons by (simp only: py_join.simps)
    then show ?thesis
      by (simp only: split_scan_dash_first [OF x] ih)
  qed
qed

lemma sublist_py_strip: "sublist (py_strip s) s"
proof -
  have "suffix (dropWhile is_space (rev (dropWhile is_space s))) (rev (dropWhile is_space s))"
    by (rule suffix_dropWhile)
  then have "prefix (py_strip s) (dropWhile is_space s)"
    by (simp add: py_strip_def suffix_to_prefix)
  moreover have "suffix (dropWhile is_space s) s"
    by (rule suffix_dropWhile)
  ultimately show ?thesis
    by (auto simp: sublist_altdef')
qed

lemma sublist_py_split: "p \<in> set (py_split sep s) \<Longrightarrow> sublist p s"
proof (induction s arbitrary: p)
  case Nil
  then show ?case by simp
next
  case (Cons c cs)
  obtain w ws where w: "py_split sep cs = w # ws"
    using py_split_not_Nil [of sep cs] by (cases "py_split sep cs") auto
  have "w = takeWhile (\<lambda>c. c \<noteq> sep) cs"
    using first_segment_py_split [of sep cs] by (simp add: w first_segment_def)
  then have pw: "prefix (c # w) (c # cs)"
    by (simp add: takeWhile_is_prefix)
  have rest: "sublist q (c # cs)" if "q \<in> set (py_split sep cs)" for q
    using Cons.IH [OF that] by (simp add: sublist_Cons_right)
  show ?case
  proof (cases "c = sep")
    case True
    with Cons.prems rest show ?thesis by auto
  next
    case False
    with Cons.prems w have "p = c # w \<or> p \<in> set ws"
      by simp
    then show ?thesis
      using pw rest w by (auto simp: sublist_Cons_right)
  qed
qed

lemma no_dash_in_parts:
  assumes "\<not> sublist '' - '' d" "p \<in> set (map py_strip (py_split CHR ''|'' d))"
  shows "\<not> sublist '' - '' p"
proof
  assume s: "sublist '' - '' p"
  obtain q where q: "q \<in> set (py_split CHR ''|'' d)" "p = py_strip q"
    using assms(2) by auto
  have "sublist p q"
    unfolding q(2) by (rule sublist_py_strip)
  moreover have "sublist q d"
    using q(1) by (rule sublist_py_split)
  ultimately have "sublist '' - '' d"
    using s by (meson sublist_order.order_trans)
  with assms(1) show False ..
qed

section \<open>Facts about one pass of the loop\<close>

lemma and_then_Inr: "and_then m f = Inr y \<longleftrightarrow> (\<exists>v. m = Inr v \<and> f v = Inr y)"
  by (cases m) (auto simp: and_then_def)

lemma row_get_Inr: "row_get r k = Inr v \<longleftrightarrow> map_of r k = Some v"
  by (auto simp: row_get_def split: option.splits)

lemma grams_Inr:
  "(\<exists>v. mul_float lbs q = Inr v \<and> round_cell v = Inr g) \<longleftrightarrow>
   (\<exists>x. lbs = CNum x \<and> g = CNum (of_int (py_round (x * q))))"
  by (cases lbs) (auto simp: mul_float_def round_cell_def)

lemma process_row_Inr:
  "process_row lib r = Inr (ns, sh, adj) \<longleftrightarrow>
   (\<exists>d sku price x qty burn oz.
      map_of r ''Fragrance - Vessel Description'' = Some d \<and>
      map_of r ''SKU'' = Some sku \<and>
      map_of r ''Retail Price'' = Some price \<and>
      map_of r ''End Weight (lbs)'' = Some (CNum x) \<and>
      map_of r ''Quantity'' = Some qty \<and>
      map_of r ''Burn Time'' = Some burn \<and>
      map_of r ''End Weight'' = Some oz \<and>
      ns = netsuite_import_row sku (netsuite_display_name (py_str lib d)) price (CNum x) \<and>
      sh = shopify_import_row lib sku (py_str lib d) burn oz
             (row_get_default r ''Height'' (CStr ''N/A''))
             (row_get_default r ''Width'' (CStr ''N/A''))
             (CNum (of_int (py_round (x * (453592 / 1000))))) price \<and>
      adj = inventory_adjustment_row lib sku (netsuite_display_name (py_str lib d)) qty)"
  apply (simp only: process_row_def and_then_Inr row_get_Inr grams_Inr)
  apply blast
  done

lemma example_row_0:
  "process_row sample_lib (row_at example_normalized 0) =
   Inr (netsuite_import_row (CStr ''ABC123456'') ''Vanilla Bean - Mason Jar''
          (CNum (2499 / 100)) (CNum (3 / 2)),
        shopify_import_row sample_lib (CStr ''ABC123456'') ''Vanilla Bean | Mason Jar''
          (CNum 40) (CNum 24) (CNum 4) (CNum 3) (CNum 680) (CNum (2499 / 100)),
        inventory_adjustment_row sample_lib (CStr ''ABC123456'') ''Vanilla Bean - Mason Jar''
          (CNum 3))"
  by code_simp

lemma example_row_1:
  "process_row sample_lib (row_at example_normalized 1) =
   Inr (netsuite_import_row (CStr ''XY 12'') ''Lavender'' (CNum 0) (CNum (125 / 2)),
        shopify_import_row sample_lib (CStr ''XY 12'') '' Lavender ''
          (CNum 40) (CNum 1000) (CNum 4) (CNum 3) (CNum 28350) (CNum 0),
        inventory_adjustment_row sample_lib (CStr ''XY 12'') ''Lavender'' (CNum 0))"
  by code_simp

lemma example_cells_0:
  "map_of (row_at example_normalized 0) ''Fragrance - Vessel Description'' =
     Some (CStr ''Vanilla Bean | Mason Jar'')"
  "map_of (row_at example_normalized 0) ''SKU'' = Some (CStr ''ABC123456'')"
  "map_of (row_at example_normalized 0) ''Quantity'' = Some (CNum 3)"
  "map_of (row_at example_normalized 0) ''End Weight (lbs)'' = Some (CNum (3 / 2))"
  by code_simp+

lemma example_cells_1:
  "map_of (row_at example_normalized 1) ''Fragrance - Vessel Description'' =
     Some (CStr '' Lavender '')"
  "map_of (row_at example_normalized 1) ''SKU'' = Some (CStr ''XY 12'')"
  "map_of (row_at example_normalized 1) ''Quantity'' = Some (CNum 0)"
  "map_of (row_at example_normalized 1) ''End Weight (lbs)'' = Some (CNum (125 / 2))"
  by code_simp+

lemma netsuite_display_name_without_bar:
  "CHR ''|'' \<notin> set s \<Longrightarrow> netsuite_display_name s = py_strip s"
  by (simp add: netsuite_display_name_def py_split_without_sep)

lemma sublist_middle: "sublist b (a @ b @ c)"
  by (rule sublist_appendI)

section \<open>Facts about the cleaning of the frame\<close>

lemma index_size_strip_headers: "index_size (strip_headers df) = index_size df"
  by (simp add: strip_headers_def)

lemma columns_strip_headers: "columns (strip_headers df) = map py_strip (columns df)"
  by (simp add: strip_headers_def columns_def comp_def)

lemma lengths_strip_headers:
  assumes "frame_ok df" "map_of (series (strip_headers df)) c = Some cells"
  shows "length cells = index_size df"
proof -
  have "(c, cells) \<in> set (series (strip_headers df))"
    using assms(2) by (rule map_of_SomeD)
  then obtain p where "p \<in> set (series df)" "cells = snd p"
    by (auto simp: strip_headers_def)
  then show ?thesis
    using assms(1) by (auto simp: frame_ok_def list_all_iff)
qed

lemma map_fst_map_entry: "map fst (AList.map_entry k f xs) = map fst xs"
  by (induction xs) auto

lemma index_size_coerce: "index_size (fold (coerce_col lib) cs df) = index_size df"
  by (induction cs arbitrary: df) (simp_all add: coerce_col_def)

lemma columns_coerce: "columns (fold (coerce_col lib) cs df) = columns df"
  by (induction cs arbitrary: df) (simp_all add: coerce_col_def columns_def map_fst_map_entry)

lemma map_of_coerce_col:
  "map_of (series (coerce_col lib a df)) c =
   (if c = a then map_option (coerce_series lib) (map_of (series df) c)
    else map_of (series df) c)"
  by (auto simp: coerce_col_def map_of_map_entry split: option.splits)

lemma map_of_coerce:
  "distinct cs \<Longrightarrow>
   map_of (series (fold (coerce_col lib) cs df)) c =
   (if c \<in> set cs then map_option (coerce_series lib) (map_of (series df) c)
    else map_of (series df) c)"
proof (induction cs arbitrary: df)
  case Nil
  show ?case by simp
next
  case (Cons a cs)
  then show ?case
    by (auto simp: map_of_coerce_col)
qed

lemma distinct_numeric_cols: "distinct (numeric_cols df)"
  by (simp add: numeric_cols_def numeric_cols_to_check_def)

lemma in_columns_iff: "c \<in> set (columns df) \<longleftrightarrow> map_of (series df) c \<noteq> None"
  by (simp add: columns_def map_of_eq_None_iff)

lemma coerced_is_number: "\<exists>x. fillna 0 (to_numeric lib v) = CNum x"
  by (cases v) (auto simp: fillna_def to_numeric_def split: option.splits)

lemma length_coerce_series: "length (coerce_series lib cells) = length cells"
  by (simp add: coerce_series_def)

lemma nth_coerce_series:
  "i < length cells \<Longrightarrow> coerce_series lib cells ! i = fillna 0 (to_numeric lib (cells ! i))"
  by (simp add: coerce_series_def)

text \<open>The columns of the normalised frame, in terms of the frame with stripped header.\<close>

lemma normalize_Inr:
  "normalize lib uploaded = Inr df \<longleftrightarrow>
   missing_cols (strip_headers uploaded) = [] \<and>
   df = add_end_weight (fold (coerce_col lib) (numeric_cols (strip_headers uploaded))
          (strip_headers uploaded))"
  by (auto simp: normalize_def Let_def)

lemma index_size_add_end_weight: "index_size (add_end_weight df) = index_size df"
  by (simp add: add_end_weight_def split: option.splits)

lemma map_of_add_end_weight:
  "map_of (series (add_end_weight df)) c =
   (case map_of (series df) c of
      Some cells \<Rightarrow> Some cells
    | None \<Rightarrow>
        (case map_of (series df) ''End Weight (lbs)'' of
           Some lbs \<Rightarrow> if c = ''End Weight'' then Some (map times16 lbs) else None
         | None \<Rightarrow> None))"
  by (auto simp: add_end_weight_def in_columns_iff map_add_def split: option.splits)

lemma required_present:
  assumes "missing_cols df = []" "c \<in> set required_cols"
  shows "\<exists>cells. map_of (series df) c = Some cells"
proof -
  have "c \<in> set (columns df)"
    using assms by (auto simp: missing_cols_def filter_empty_conv)
  then show ?thesis
    by (simp add: in_columns_iff)
qed

lemma normalize_index_size: "normalize lib uploaded = Inr df \<Longrightarrow> index_size df = index_size uploaded"
  by (simp add: normalize_Inr index_size_add_end_weight index_size_coerce index_size_strip_headers)

lemma normalize_series:
  assumes "normalize lib uploaded = Inr df"
  shows "map_of (series df) c =
    (case map_of (series (strip_headers uploaded)) c of
       Some raw \<Rightarrow>
         if c \<in> set numeric_cols_to_check then Some (coerce_series lib raw)
         else Some raw
     | None \<Rightarrow>
         if c = ''End Weight''
         then map_option (\<lambda>lbs. map times16 (coerce_series lib lbs))
                (map_of (series (strip_headers uploaded)) ''End Weight (lbs)'')
         else None)"
proof -
  let ?df1 = "strip_headers uploaded"
  let ?df2 = "fold (coerce_col lib) (numeric_cols ?df1) ?df1"
  have df: "df = add_end_weight ?df2" and ok: "missing_cols ?df1 = []"
    using assms by (simp_all add: normalize_Inr)
  have m2: "map_of (series ?df2) k =
      (if k \<in> set numeric_cols_to_check
       then map_option (coerce_series lib) (map_of (series ?df1) k)
       else map_of (series ?df1) k)" for k
  proof -
    have "k \<in> set (numeric_cols ?df1) \<longleftrightarrow>
        k \<in> set numeric_cols_to_check \<and> map_of (series ?df1) k \<noteq> None"
      by (auto simp: numeric_cols_def in_columns_iff)
    then show ?thesis
      unfolding map_of_coerce [OF distinct_numeric_cols] by auto
  qed
  obtain lbs where lbs: "map_of (series ?df1) ''End Weight (lbs)'' = Some lbs"
    using required_present [OF ok, of "''End Weight (lbs)''"] by (auto simp: required_cols_def)
  have lbs2: "map_of (series ?df2) ''End Weight (lbs)'' =
      Some (coerce_series lib lbs)"
    by (simp add: m2 lbs numeric_cols_to_check_def)
  show ?thesis
    unfolding df map_of_add_end_weight lbs2
    by (cases "map_of (series ?df1) c") (auto simp: m2 lbs)
qed

lemma map_of_row_at: "map_of (row_at df i) k = map_option (\<lambda>cells. cells ! i) (map_of (series df) k)"
proof -
  have "map_of (map (\<lambda>p. (fst p, snd p ! i)) xs) k = map_option (\<lambda>cells. cells ! i) (map_of xs k)"
    for xs :: "(string \<times> cell list) list"
    by (induction xs) auto
  then show ?thesis
    by (simp add: row_at_def)
qed

lemma sublist_appendI2: "sublist k b \<Longrightarrow> sublist k (a @ b)"
  by (auto simp: sublist_append)

lemma sublist_py_join: "k \<in> set ms \<Longrightarrow> sublist k (py_join sep ms)"
proof (induction sep ms rule: py_join.induct)
  case (1 sep)
  then show ?case by simp
next
  case (2 sep x)
  then show ?case by simp
next
  case (3 sep x y ys)
  show ?case
  proof (cases "k = x")
    case True
    then show ?thesis by simp
  next
    case False
    with 3 have "sublist k (py_join sep (y # ys))"
      by simp
    then have "sublist k ((x @ sep) @ py_join sep (y # ys))"
      by (rule sublist_appendI2)
    then show ?thesis
      by simp
  qed
qed

lemma times16_coerced:
  "\<exists>x. fillna 0 (to_numeric lib v) = CNum x \<and> times16 (fillna 0 (to_numeric lib v)) = CNum (x * 16)"
  using coerced_is_number [of lib v] by (auto simp: times16_def)

lemma body_of_row:
  assumes "process_row lib r = Inr (ns, sh, adj)"
    and "map_of r ''Burn Time'' = Some burn"
    and "map_of r ''End Weight'' = Some oz"
  shows "map_of sh ''Body (HTML)'' =
     Some (CStr (body_html (py_str lib burn) (py_str lib oz)
        (py_str lib (row_get_default r ''Height'' (CStr ''N/A'')))
        (py_str lib (row_get_default r ''Width'' (CStr ''N/A'')))))"
proof -
  obtain d sku g price where
    sh: "sh = shopify_import_row lib sku (py_str lib d) burn oz
             (row_get_default r ''Height'' (CStr ''N/A''))
             (row_get_default r ''Width'' (CStr ''N/A'')) g price"
    using assms unfolding process_row_Inr by auto
  show ?thesis
    unfolding sh by (simp add: shopify_import_row_def Let_def)
qed

section \<open>Facts about the run\<close>

lemma process_row_without_burn_time:
  assumes "map_of r ''Fragrance - Vessel Description'' = Some d"
    and "map_of r ''SKU'' = Some sku"
    and "map_of r ''Retail Price'' = Some price"
    and "map_of r ''End Weight (lbs)'' = Some lbs"
    and "map_of r ''Quantity'' = Some qty"
    and "map_of r ''Burn Time'' = None"
  shows "process_row lib r = Inl (KeyError ''Burn Time'')"
  by (simp add: process_row_def and_then_def row_get_def assms)


lemma normalized_required:
  assumes "normalize lib uploaded = Inr df" "c \<in> set required_cols"
  shows "\<exists>cells. map_of (series df) c = Some cells"
proof -
  have "missing_cols (strip_headers uploaded) = []"
    using assms(1) by (simp add: normalize_Inr)
  then obtain raw where "map_of (series (strip_headers uploaded)) c = Some raw"
    using required_present assms(2) by blast
  then show ?thesis
    unfolding normalize_series [OF assms(1)] by simp
qed

lemma normalized_row_required:
  assumes "normalize lib uploaded = Inr df" "c \<in> set required_cols"
  shows "\<exists>v. map_of (row_at df i) c = Some v"
  using normalized_required [OF assms] by (auto simp: map_of_row_at)



lemma normalized_row_burn_time:
  assumes "normalize lib uploaded = Inr df"
  shows "map_of (row_at df i) ''Burn Time'' = None \<longleftrightarrow>
     ''Burn Time'' \<notin> set (columns (strip_headers uploaded))"
  unfolding map_of_row_at normalize_series [OF assms] in_columns_iff
  by (cases "map_of (series (strip_headers uploaded)) ''Burn Time''") simp_all

lemma iterrows_Cons:
  "0 < index_size df \<Longrightarrow>
   iterrows df = (0, row_at df 0) # map (\<lambda>i. (i, row_at df i)) [1..<index_size df]"
  by (simp add: iterrows_def upt_conv_Cons)




text \<open>Without the columns \<^verbatim>\<open>Height\<close> and \<^verbatim>\<open>Width\<close> the body shows \<^verbatim>\<open>N/A\<close>.\<close>

lemma placeholder_for_missing_dimensions:
  "\<exists>ns sh adj. process_row sample_lib
       (row_at (negative_price_frame\<lparr>series :=
            series negative_price_frame @ [(''End Weight'', [CNum 24])]\<rparr>) 0) = Inr (ns, sh, adj) \<and>
     map_of sh ''Body (HTML)'' = Some (CStr (body_html ''40'' ''24.0'' ''N/A'' ''N/A''))"
proof -
  let ?r = "row_at (negative_price_frame\<lparr>series :=
            series negative_price_frame @ [(''End Weight'', [CNum 24])]\<rparr>) 0"
  have c: "map_of ?r ''Burn Time'' = Some (CNum 40)" "map_of ?r ''End Weight'' = Some (CNum 24)"
    by code_simp+
  have t: "py_str sample_lib (CNum 40) = ''40''" "py_str sample_lib (CNum 24) = ''24.0''"
    "py_str sample_lib (row_get_default ?r ''Height'' (CStr ''N/A'')) = ''N/A''"
    "py_str sample_lib (row_get_default ?r ''Width'' (CStr ''N/A'')) = ''N/A''"
    by code_simp+
  have p: "process_row sample_lib ?r =
      Inr (netsuite_import_row (CStr ''ABC123456'') ''Vanilla Bean - Mason Jar''
             (CNum (- 5)) (CNum (3 / 2)),
           shopify_import_row sample_lib (CStr ''ABC123456'') ''Vanilla Bean | Mason Jar''
             (CNum 40) (CNum 24) (CStr ''N/A'') (CStr ''N/A'') (CNum 680) (CNum (- 5)),
           inventory_adjustment_row sample_lib (CStr ''ABC123456'')
             ''Vanilla Bean - Mason Jar'' (CNum 3))"
    by code_simp
  show ?thesis
    using p body_of_row [OF p c, unfolded t] by blast
qed

section \<open>The claims\<close>

text \<open>
  C9 (round trip of the display name). As stated, for every description without the text
  \<^verbatim>\<open>" - "\<close>, the claim fails: in \<^verbatim>\<open>"a -|b"\<close> the first part ends with \<^verbatim>\<open>" -"\<close>, the
  joined name is \<^verbatim>\<open>"a - - b"\<close>, and the scan from the left cuts it into \<^verbatim>\<open>"a"\<close> and
  \<^verbatim>\<open>"- b"\<close>. With one more condition it holds: if the description does not contain
  \<^verbatim>\<open>" - "\<close> and no trimmed part other than the last ends with \<^verbatim>\<open>" -"\<close>, then
  splitting the display name at \<^verbatim>\<open>" - "\<close> gives exactly the trimmed parts of the
  description between the \<^verbatim>\<open>|\<close> characters.
\<close>

theorem display_name_round_trip:
  assumes "\<not> sublist '' - '' d"
    and "\<forall>p \<in> set (butlast (map py_strip (py_split CHR ''|'' d))). \<not> suffix '' -'' p"
  shows "split_scan '' - '' (netsuite_display_name d) = map py_strip (py_split CHR ''|'' d)"
  unfolding netsuite_display_name_def
proof (rule split_scan_py_join)
  show "map py_strip (py_split CHR ''|'' d) \<noteq> []"
    by (simp add: py_split_not_Nil)
  show "\<forall>p \<in> set (map py_strip (py_split CHR ''|'' d)). \<not> sublist '' - '' p"
    using no_dash_in_parts [OF assms(1)] by blast
  show "\<forall>p \<in> set (butlast (map py_strip (py_split CHR ''|'' d))). \<not> suffix '' -'' p"
    by (rule assms(2))
qed

theorem display_name_round_trip_witness:
  "\<not> sublist '' - '' ''Vanilla Bean | Mason Jar'' \<and>
   butlast (map py_strip (py_split CHR ''|'' ''Vanilla Bean | Mason Jar'')) = [''Vanilla Bean''] \<and>
   split_scan '' - '' (netsuite_display_name ''Vanilla Bean | Mason Jar'') =
     [''Vanilla Bean'', ''Mason Jar'']"
proof -
  have h1: "\<not> sublist '' - '' ''Vanilla Bean | Mason Jar''"
    by code_simp
  have b: "butlast (map py_strip (py_split CHR ''|'' ''Vanilla Bean | Mason Jar'')) = [''Vanilla Bean'']"
    by code_simp
  have h2: "\<forall>p \<in> set (butlast (map py_strip (py_split CHR ''|'' ''Vanilla Bean | Mason Jar''))).
      \<not> suffix '' -'' p"
    unfolding b by code_simp
  have m: "map py_strip (py_split CHR ''|'' ''Vanilla Bean | Mason Jar'') = [''Vanilla Bean'', ''Mason Jar'']"
    by code_simp
  show ?thesis
    using display_name_round_trip [OF h1 h2] h1 b by (simp only: m simp_thms)
qed

theorem display_name_round_trip_counterexample:
  "\<not> sublist '' - '' ''a -|b'' \<and>
   split_scan '' - '' (netsuite_display_name ''a -|b'') \<noteq>
     map py_strip (py_split CHR ''|'' ''a -|b'')"
  by code_simp

text \<open>
  C1 (display name). When the loop body produces the rows for an input row, the
  \<^verbatim>\<open>Display Name\<close> cell of the NetSuite row is the description of that row (as a string),
  split at \<^verbatim>\<open>|\<close>, each part trimmed, the parts joined with \<^verbatim>\<open>" - "\<close>; a description
  without \<^verbatim>\<open>|\<close> gives the trimmed description unchanged.
\<close>

theorem display_name_of_row:
  assumes "process_row lib r = Inr (ns, sh, adj)"
    and "map_of r ''Fragrance - Vessel Description'' = Some d"
  shows "map_of ns ''Display Name'' =
       Some (CStr (py_join '' - '' (map py_strip (py_split CHR ''|'' (py_str lib d))))) \<and>
     (CHR ''|'' \<notin> set (py_str lib d) \<longrightarrow>
        map_of ns ''Display Name'' = Some (CStr (py_strip (py_str lib d))))"
proof -
  obtain sku price x where
    ns: "ns = netsuite_import_row sku (netsuite_display_name (py_str lib d)) price (CNum x)"
    using assms unfolding process_row_Inr by auto
  have cell: "map_of ns ''Display Name'' = Some (CStr (netsuite_display_name (py_str lib d)))"
    unfolding ns by (simp add: netsuite_import_row_def)
  show ?thesis
    using cell netsuite_display_name_without_bar [of "py_str lib d"]
    by (auto simp: netsuite_display_name_def)
qed

theorem display_name_of_row_witness:
  "(\<exists>ns sh adj. process_row sample_lib (row_at example_normalized 0) = Inr (ns, sh, adj) \<and>
      map_of ns ''Display Name'' = Some (CStr ''Vanilla Bean - Mason Jar'')) \<and>
   (\<exists>ns sh adj. process_row sample_lib (row_at example_normalized 1) = Inr (ns, sh, adj) \<and>
      CHR ''|'' \<notin> set '' Lavender '' \<and>
      map_of ns ''Display Name'' = Some (CStr ''Lavender''))"
proof -
  have v0: "py_join '' - '' (map py_strip (py_split CHR ''|''
        (py_str sample_lib (CStr ''Vanilla Bean | Mason Jar'')))) = ''Vanilla Bean - Mason Jar''"
    by code_simp
  have v1: "py_str sample_lib (CStr '' Lavender '') = '' Lavender ''"
    "CHR ''|'' \<notin> set '' Lavender ''" "py_strip '' Lavender '' = ''Lavender''"
    by code_simp+
  have a: "map_of (netsuite_import_row (CStr ''ABC123456'') ''Vanilla Bean - Mason Jar''
          (CNum (2499 / 100)) (CNum (3 / 2))) ''Display Name'' =
        Some (CStr ''Vanilla Bean - Mason Jar'')"
    using display_name_of_row [OF example_row_0 example_cells_0(1)] unfolding v0 by blast
  have b: "map_of (netsuite_import_row (CStr ''XY 12'') ''Lavender'' (CNum 0) (CNum (125 / 2)))
       ''Display Name'' = Some (CStr ''Lavender'')"
    using display_name_of_row [OF example_row_1 example_cells_1(1)] by (simp add: v1)
  show ?thesis
    using example_row_0 example_row_1 v1(2) a b by blast
qed

text \<open>
  C2 (fragrance and tags). The fragrance is the description with every \<^verbatim>\<open>|\<close> replaced by
  \<^verbatim>\<open>-\<close>, split at \<^verbatim>\<open>-\<close>, first part, trimmed, which is the trimmed text before the
  first \<^verbatim>\<open>|\<close> or \<^verbatim>\<open>-\<close>; the tag is the fragrance in lower case with hyphens for spaces
  (the source replaces first and lowers then, which gives the same string); the
  \<^verbatim>\<open>Tags\<close> cell holds \<^verbatim>\<open>antique\<close> with the SKU suffix and the \<^verbatim>\<open>_tab1_\<close> tag, and for the
  example row of the specification these are \<^verbatim>\<open>antique123456\<close> and
  \<^verbatim>\<open>_tab1_vanilla-bean-smells-like\<close>.
\<close>

theorem fragrance_and_tags:
  assumes "process_row lib r = Inr (ns, sh, adj)"
    and "map_of r ''Fragrance - Vessel Description'' = Some d"
    and "map_of r ''SKU'' = Some sku"
  shows "fragrance (py_str lib d) =
       py_strip (first_segment (py_split CHR ''-'' (py_replace CHR ''|'' ''-'' (py_str lib d)))) \<and>
     fragrance (py_str lib d) =
       py_strip (takeWhile (\<lambda>c. c \<noteq> CHR ''|'' \<and> c \<noteq> CHR ''-'') (py_str lib d)) \<and>
     smells_like (py_str lib d) = py_replace CHR '' '' ''-'' (py_lower (fragrance (py_str lib d))) \<and>
     map_of sh ''Tags'' = Some (CStr (tags (py_str lib sku) (py_str lib d))) \<and>
     sublist (''antique'' @ py_slice_from (- 6) (py_str lib sku))
       (tags (py_str lib sku) (py_str lib d)) \<and>
     sublist (''_tab1_'' @ smells_like (py_str lib d) @ ''-smells-like'')
       (tags (py_str lib sku) (py_str lib d)) \<and>
     sublist ''antique123456'' (tags ''ABC123456'' ''Vanilla Bean | Mason Jar'') \<and>
     sublist ''_tab1_vanilla-bean-smells-like'' (tags ''ABC123456'' ''Vanilla Bean | Mason Jar'')"
proof -
  obtain burn oz h w g price where
    sh: "sh = shopify_import_row lib sku (py_str lib d) burn oz h w g price"
    using assms unfolding process_row_Inr by auto
  have cell: "map_of sh ''Tags'' = Some (CStr (tags (py_str lib sku) (py_str lib d)))"
    unfolding sh by (simp add: shopify_import_row_def Let_def)
  have f1: "fragrance (py_str lib d) =
      py_strip (first_segment (py_split CHR ''-'' (py_replace CHR ''|'' ''-'' (py_str lib d))))"
    by (simp add: fragrance_def)
  have s1: "smells_like (py_str lib d) =
      py_replace CHR '' '' ''-'' (py_lower (fragrance (py_str lib d)))"
    by (simp add: smells_like_def py_lower_replace_space)
  have t1: "sublist (''antique'' @ py_slice_from (- 6) (py_str lib sku))
      (tags (py_str lib sku) (py_str lib d))"
  proof -
    have "tags (py_str lib sku) (py_str lib d) =
        ''_tab2_antique-restock-101,'' @ (''antique'' @ py_slice_from (- 6) (py_str lib sku)) @
        ('',_tab1_'' @ smells_like (py_str lib d) @ ''-smells-like, '' @ fragrance (py_str lib d))"
      by (simp add: tags_def)
    then show ?thesis
      by (simp only: sublist_middle)
  qed
  have t2: "sublist (''_tab1_'' @ smells_like (py_str lib d) @ ''-smells-like'')
      (tags (py_str lib sku) (py_str lib d))"
  proof -
    have "tags (py_str lib sku) (py_str lib d) =
        (''_tab2_antique-restock-101,antique'' @ py_slice_from (- 6) (py_str lib sku) @ '','') @
        (''_tab1_'' @ smells_like (py_str lib d) @ ''-smells-like'') @
        ('', '' @ fragrance (py_str lib d))"
      by (simp add: tags_def)
    then show ?thesis
      by (simp only: sublist_middle)
  qed
  have e1: "sublist ''antique123456'' (tags ''ABC123456'' ''Vanilla Bean | Mason Jar'')"
    by code_simp
  have e2: "sublist ''_tab1_vanilla-bean-smells-like''
      (tags ''ABC123456'' ''Vanilla Bean | Mason Jar'')"
    by code_simp
  show ?thesis
    using f1 fragrance_takeWhile [of "py_str lib d"] s1 cell t1 t2 e1 e2 by blast
qed

theorem fragrance_and_tags_witness:
  "\<exists>ns sh adj t. process_row sample_lib (row_at example_normalized 0) = Inr (ns, sh, adj) \<and>
     map_of sh ''Tags'' = Some (CStr t) \<and>
     sublist ''antique123456'' t \<and> sublist ''_tab1_vanilla-bean-smells-like'' t \<and>
     fragrance ''Vanilla Bean | Mason Jar'' = ''Vanilla Bean'' \<and>
     smells_like ''Vanilla Bean | Mason Jar'' = ''vanilla-bean''"
proof -
  have s: "py_str sample_lib (CStr ''ABC123456'') = ''ABC123456''"
    "py_str sample_lib (CStr ''Vanilla Bean | Mason Jar'') = ''Vanilla Bean | Mason Jar''"
    by (simp_all add: py_str_def)
  have v: "fragrance ''Vanilla Bean | Mason Jar'' = ''Vanilla Bean''"
    "smells_like ''Vanilla Bean | Mason Jar'' = ''vanilla-bean''"
    by code_simp+
  note t = fragrance_and_tags [OF example_row_0 example_cells_0(1) example_cells_0(2),
      unfolded s]
  show ?thesis
    using example_row_0 t v by blast
qed

text \<open>
  C8 (inventory adjustment row). When the loop body produces the rows for an input row, the
  cells \<^verbatim>\<open>External ID\<close>, \<^verbatim>\<open>memo\<close> and \<^verbatim>\<open>Line memo\<close> of the inventory adjustment row
  are \<^verbatim>\<open>"Antique Restock "\<close> followed by the last six characters of the SKU as a string
  (a suffix of it, of length six or of the length of the SKU if that is less),
  \<^verbatim>\<open>Full name\<close> is the SKU, one space and the display name of the NetSuite row,
  \<^verbatim>\<open>line qty adj\<close> is the quantity of the row and \<^verbatim>\<open>itemId\<close> is its SKU.
\<close>

theorem inventory_adjustment_of_row:
  assumes "process_row lib r = Inr (ns, sh, adj)"
    and "map_of r ''SKU'' = Some sku"
    and "map_of r ''Quantity'' = Some qty"
    and "map_of r ''Fragrance - Vessel Description'' = Some d"
  shows "map_of adj ''External ID'' =
       Some (CStr (''Antique Restock '' @ py_slice_from (- 6) (py_str lib sku))) \<and>
     map_of adj ''memo'' =
       Some (CStr (''Antique Restock '' @ py_slice_from (- 6) (py_str lib sku))) \<and>
     map_of adj ''Line memo'' =
       Some (CStr (''Antique Restock '' @ py_slice_from (- 6) (py_str lib sku))) \<and>
     suffix (py_slice_from (- 6) (py_str lib sku)) (py_str lib sku) \<and>
     length (py_slice_from (- 6) (py_str lib sku)) = min 6 (length (py_str lib sku)) \<and>
     map_of ns ''Display Name'' = Some (CStr (netsuite_display_name (py_str lib d))) \<and>
     map_of adj ''Full name'' =
       Some (CStr (py_str lib sku @ '' '' @ netsuite_display_name (py_str lib d))) \<and>
     map_of adj ''line qty adj'' = Some qty \<and>
     map_of adj ''itemId'' = Some sku"
proof -
  obtain price x where
    ns: "ns = netsuite_import_row sku (netsuite_display_name (py_str lib d)) price (CNum x)"
    and adj: "adj = inventory_adjustment_row lib sku (netsuite_display_name (py_str lib d)) qty"
    using assms unfolding process_row_Inr by auto
  let ?s = "py_slice_from (- 6) (py_str lib sku)"
  let ?n = "netsuite_display_name (py_str lib d)"
  have "map_of adj ''External ID'' = Some (CStr (''Antique Restock '' @ ?s))"
    "map_of adj ''memo'' = Some (CStr (''Antique Restock '' @ ?s))"
    "map_of adj ''Line memo'' = Some (CStr (''Antique Restock '' @ ?s))"
    "map_of adj ''Full name'' = Some (CStr (py_str lib sku @ '' '' @ ?n))"
    "map_of adj ''line qty adj'' = Some qty"
    "map_of adj ''itemId'' = Some sku"
    unfolding adj by (simp_all add: inventory_adjustment_row_def Let_def)
  moreover have "map_of ns ''Display Name'' = Some (CStr ?n)"
    unfolding ns by (simp add: netsuite_import_row_def)
  moreover have "suffix ?s (py_str lib sku)" "length ?s = min 6 (length (py_str lib sku))"
    by (rule suffix_py_slice_from, rule length_py_slice_from_neg6)
  ultimately show ?thesis
    by blast
qed

theorem inventory_adjustment_of_row_witness:
  "(\<exists>ns sh adj. process_row sample_lib (row_at example_normalized 0) = Inr (ns, sh, adj) \<and>
     map_of adj ''External ID'' = Some (CStr ''Antique Restock 123456'') \<and>
     map_of adj ''memo'' = Some (CStr ''Antique Restock 123456'') \<and>
     map_of adj ''Line memo'' = Some (CStr ''Antique Restock 123456'') \<and>
     map_of adj ''Full name'' = Some (CStr ''ABC123456 Vanilla Bean - Mason Jar'') \<and>
     map_of adj ''line qty adj'' = Some (CNum 3) \<and>
     map_of adj ''itemId'' = Some (CStr ''ABC123456'')) \<and>
   (\<exists>ns sh adj. process_row sample_lib (row_at example_normalized 1) = Inr (ns, sh, adj) \<and>
     map_of adj ''External ID'' = Some (CStr ''Antique Restock XY 12''))"
proof -
  have e: "''Antique Restock '' @ py_slice_from (- 6) (py_str sample_lib (CStr ''ABC123456'')) =
      ''Antique Restock 123456''"
    "py_str sample_lib (CStr ''ABC123456'') @ '' '' @
       netsuite_display_name (py_str sample_lib (CStr ''Vanilla Bean | Mason Jar'')) =
      ''ABC123456 Vanilla Bean - Mason Jar''"
    "''Antique Restock '' @ py_slice_from (- 6) (py_str sample_lib (CStr ''XY 12'')) =
      ''Antique Restock XY 12''"
    by code_simp+
  note a = inventory_adjustment_of_row [OF example_row_0 example_cells_0(2) example_cells_0(3)
      example_cells_0(1), unfolded e]
  note b = inventory_adjustment_of_row [OF example_row_1 example_cells_1(2) example_cells_1(3)
      example_cells_1(1), unfolded e]
  show ?thesis
    using example_row_0 example_row_1 a b by blast
qed



text \<open>
  C3 (missing required columns). If a required column is not among the stripped column
  names, the run stops with the error that carries all required columns that are
  missing, in the order of the list of required columns; each of them occurs in the text
  of the message, and no row of any of the three tables is produced.
\<close>

theorem missing_columns_abort:
  assumes "c \<in> set required_cols" "c \<notin> set (columns (strip_headers uploaded))"
  shows "run lib uploaded = Inl (MissingColumns (missing_cols (strip_headers uploaded))) \<and>
     c \<in> set (missing_cols (strip_headers uploaded)) \<and>
     set (missing_cols (strip_headers uploaded)) =
       {k \<in> set required_cols. k \<notin> set (columns (strip_headers uploaded))} \<and>
     (\<forall>k \<in> set (missing_cols (strip_headers uploaded)).
        sublist k (missing_message (missing_cols (strip_headers uploaded)))) \<and>
     rows_produced (run lib uploaded) = (0, 0, 0)"
proof -
  let ?ms = "missing_cols (strip_headers uploaded)"
  have c: "c \<in> set ?ms"
    using assms by (simp add: missing_cols_def)
  then have "?ms \<noteq> []"
    by auto
  then have r: "run lib uploaded = Inl (MissingColumns ?ms)"
    by (simp add: run_def normalize_def Let_def)
  have s: "set ?ms = {k \<in> set required_cols. k \<notin> set (columns (strip_headers uploaded))}"
    by (auto simp: missing_cols_def)
  have m: "sublist k (missing_message ?ms)" if "k \<in> set ?ms" for k
  proof -
    have "sublist k (py_join '', '' ?ms)"
      using that by (rule sublist_py_join)
    then have "sublist k (py_join '', '' ?ms @ ''`'')"
      by (auto simp: sublist_append)
    then show ?thesis
      unfolding missing_message_def by (rule sublist_appendI2)
  qed
  show ?thesis
    using r c s m by (simp add: rows_produced_def)
qed

theorem missing_columns_abort_witness:
  "''Quantity'' \<in> set required_cols \<and>
   ''Quantity'' \<notin> set (columns (strip_headers two_missing_frame)) \<and>
   run sample_lib two_missing_frame = Inl (MissingColumns [''Retail Price'', ''Quantity'']) \<and>
   missing_message [''Retail Price'', ''Quantity''] =
     ''**Error:** Your file is missing the following required columns: `Retail Price, Quantity`'' \<and>
   rows_produced (run sample_lib two_missing_frame) = (0, 0, 0)"
proof -
  have h: "''Quantity'' \<in> set required_cols"
    "''Quantity'' \<notin> set (columns (strip_headers two_missing_frame))"
    by code_simp+
  have m: "missing_cols (strip_headers two_missing_frame) = [''Retail Price'', ''Quantity'']"
    by code_simp
  have t: "missing_message [''Retail Price'', ''Quantity''] =
     ''**Error:** Your file is missing the following required columns: `Retail Price, Quantity`''"
    by code_simp
  note a = missing_columns_abort [OF h, of sample_lib, unfolded m]
  show ?thesis
    using a h t by blast
qed

text \<open>
  C5 (numeric fields after cleaning). As stated, with "non-negative", the claim fails: the
  cleaning parses and fills, it never looks at the sign, and a price of \<open>-5\<close> stays
  \<open>-5\<close>. What holds: after the cleaning, every cell of every numeric column that is
  present is a number, never a missing value and never a text; a cell of an uploaded
  column keeps its number or the number its text parses to, and becomes \<open>0\<close> if it was
  missing or its text does not parse.
\<close>

theorem numeric_fields_coerced:
  assumes "frame_ok uploaded"
    and "normalize lib uploaded = Inr df"
    and "col \<in> set numeric_cols_to_check"
    and "map_of (series df) col = Some cells"
    and "i < index_size uploaded"
  shows "(\<exists>x. cells ! i = CNum x) \<and>
     (\<forall>raw. map_of (series (strip_headers uploaded)) col = Some raw \<longrightarrow>
        cells ! i =
          (case raw ! i of
             CNum x \<Rightarrow> CNum x
           | CNaN \<Rightarrow> CNum 0
           | CStr s \<Rightarrow> (case parse_number lib s of Some x \<Rightarrow> CNum x | None \<Rightarrow> CNum 0)))"
proof (cases "map_of (series (strip_headers uploaded)) col")
  case None
  obtain lbs where lbs: "map_of (series (strip_headers uploaded)) ''End Weight (lbs)'' = Some lbs"
    and cells: "cells = map times16 (coerce_series lib lbs)"
    using assms(4) unfolding normalize_series [OF assms(2)] None
    by (auto split: if_splits)
  have len: "length lbs = index_size uploaded"
    using assms(1) lbs by (rule lengths_strip_headers)
  have "cells ! i = times16 (fillna 0 (to_numeric lib (lbs ! i)))"
    using assms(5) len by (simp add: cells length_coerce_series nth_coerce_series)
  then show ?thesis
    using times16_coerced [of lib "lbs ! i"] None by auto
next
  case (Some raw)
  have cells: "cells = coerce_series lib raw"
    using assms(3,4) unfolding normalize_series [OF assms(2)] Some by simp
  have len: "length raw = index_size uploaded"
    using assms(1) Some by (rule lengths_strip_headers)
  have c: "cells ! i = fillna 0 (to_numeric lib (raw ! i))"
    using assms(5) len by (simp add: cells nth_coerce_series)
  have "fillna 0 (to_numeric lib (raw ! i)) =
      (case raw ! i of
         CNum x \<Rightarrow> CNum x
       | CNaN \<Rightarrow> CNum 0
       | CStr s \<Rightarrow> (case parse_number lib s of Some x \<Rightarrow> CNum x | None \<Rightarrow> CNum 0))"
    by (simp add: fillna_def to_numeric_def split: cell.splits option.splits)
  then show ?thesis
    using c coerced_is_number [of lib "raw ! i"] Some by auto
qed

theorem numeric_fields_coerced_witness:
  "frame_ok example_frame \<and>
   normalize sample_lib example_frame = Inr example_normalized \<and>
   ''Retail Price'' \<in> set numeric_cols_to_check \<and>
   map_of (series example_normalized) ''Retail Price'' = Some [CNum (2499 / 100), CNum 0] \<and>
   map_of (series (strip_headers example_frame)) ''Retail Price'' =
     Some [CStr ''24.99'', CStr ''N/A''] \<and>
   parse_number sample_lib ''N/A'' = None \<and>
   [CNum (2499 / 100), CNum 0] ! 1 = CNum 0"
proof -
  have h: "frame_ok example_frame"
    "normalize sample_lib example_frame = Inr example_normalized"
    "''Retail Price'' \<in> set numeric_cols_to_check"
    "map_of (series example_normalized) ''Retail Price'' = Some [CNum (2499 / 100), CNum 0]"
    "1 < index_size example_frame"
    by code_simp+
  have r: "map_of (series (strip_headers example_frame)) ''Retail Price'' =
     Some [CStr ''24.99'', CStr ''N/A'']"
    by code_simp
  have p: "parse_number sample_lib ''N/A'' = None"
    by code_simp
  have "[CNum (2499 / 100), CNum 0] ! 1 =
      (case [CStr ''24.99'', CStr ''N/A''] ! 1 of
         CNum x \<Rightarrow> CNum x
       | CNaN \<Rightarrow> CNum 0
       | CStr s \<Rightarrow> (case parse_number sample_lib s of Some x \<Rightarrow> CNum x | None \<Rightarrow> CNum 0))"
    using numeric_fields_coerced [OF h] r by blast
  then have "[CNum (2499 / 100), CNum 0] ! 1 = CNum 0"
    by (simp add: p)
  then show ?thesis
    using h r p by blast
qed

theorem numeric_fields_nonnegative_counterexample:
  "frame_ok negative_price_frame \<and>
   normalize sample_lib negative_price_frame =
     Inr (negative_price_frame\<lparr>series :=
            series negative_price_frame @ [(''End Weight'', [CNum 24])]\<rparr>) \<and>
   ''Retail Price'' \<in> set numeric_cols_to_check \<and>
   map_of (series negative_price_frame @ [(''End Weight'', [CNum 24])]) ''Retail Price'' =
     Some [CNum (- 5)] \<and>
   (- 5 :: rat) < 0"
  by code_simp



text \<open>
  C6 (no derivation fails when an optional column is absent). The code does this for
  \<^verbatim>\<open>Height\<close> and \<^verbatim>\<open>Width\<close>, which it reads with \<^verbatim>\<open>row.get\<close> and a default, and for
  \<^verbatim>\<open>End Weight\<close>, which it adds; it reads \<^verbatim>\<open>Burn Time\<close> with \<^verbatim>\<open>row['Burn Time']\<close>.
  So for every uploaded frame that has all required columns, no \<^verbatim>\<open>Burn Time\<close> column and
  at least one row, the first pass of the loop raises \<^verbatim>\<open>KeyError\<close> for \<^verbatim>\<open>Burn Time\<close>, the
  run ends with that error and hands out no row.
\<close>

theorem missing_burn_time_aborts:
  assumes "missing_cols (strip_headers uploaded) = []"
    and "''Burn Time'' \<notin> set (columns (strip_headers uploaded))"
    and "0 < index_size uploaded"
  shows "run lib uploaded = Inl (Unexpected (KeyError ''Burn Time'')) \<and>
     rows_produced (run lib uploaded) = (0, 0, 0)"
proof -
  obtain df where df: "normalize lib uploaded = Inr df"
    using assms(1) by (simp add: normalize_Inr)
  have n: "0 < index_size df"
    using assms(3) normalize_index_size [OF df] by simp
  obtain d sku price lbs qty where
    "map_of (row_at df 0) ''Fragrance - Vessel Description'' = Some d"
    "map_of (row_at df 0) ''SKU'' = Some sku"
    "map_of (row_at df 0) ''Retail Price'' = Some price"
    "map_of (row_at df 0) ''End Weight (lbs)'' = Some lbs"
    "map_of (row_at df 0) ''Quantity'' = Some qty"
    using normalized_row_required [OF df, of "''Fragrance - Vessel Description''" 0]
      normalized_row_required [OF df, of "''SKU''" 0]
      normalized_row_required [OF df, of "''Retail Price''" 0]
      normalized_row_required [OF df, of "''End Weight (lbs)''" 0]
      normalized_row_required [OF df, of "''Quantity''" 0]
    by (auto simp: required_cols_def)
  moreover have "map_of (row_at df 0) ''Burn Time'' = None"
    using normalized_row_burn_time [OF df, of 0] assms(2) by simp
  ultimately have "process_row lib (row_at df 0) = Inl (KeyError ''Burn Time'')"
    by (rule process_row_without_burn_time)
  then have "process_rows lib (iterrows df) ([], [], []) = Inl (KeyError ''Burn Time'')"
    by (simp add: iterrows_Cons [OF n])
  then have "run lib uploaded = Inl (Unexpected (KeyError ''Burn Time''))"
    by (simp add: run_def df)
  then show ?thesis
    by (simp add: rows_produced_def)
qed

theorem missing_burn_time_aborts_witness:
  "missing_cols (strip_headers required_only_frame) = [] \<and>
   ''Burn Time'' \<notin> set (columns (strip_headers required_only_frame)) \<and>
   0 < index_size required_only_frame \<and>
   run sample_lib required_only_frame = Inl (Unexpected (KeyError ''Burn Time''))"
proof -
  have h: "missing_cols (strip_headers required_only_frame) = []"
    "''Burn Time'' \<notin> set (columns (strip_headers required_only_frame))"
    "0 < index_size required_only_frame"
    by code_simp+
  show ?thesis
    using missing_burn_time_aborts [OF h, of sample_lib] h by blast
qed




end
